theory Spec2Isabelle
  imports Main "HOL-Library.Word"
begin

section \<open>Ghostcloud deployment client: data model\<close>

text \<open>
  The embedding follows \<^verbatim>\<open>src/lib/ghostcloud.ts\<close> and the dashboard component.
  Everything the TypeScript obtains from a collaborator that is not part of these files
  (the session store, the wallet and RPC libraries, the file helper, the query cache)
  is a field of the record \<open>world\<close>: the value that collaborator hands back when it
  is called. Every such call is written to a trace, so that what an operation did
  before it failed can be read off its result.
\<close>

type_synonym byte = "8 word"

text \<open>A thrown JavaScript \<^verbatim>\<open>Error\<close>, with its message.\<close>

datatype jserror = Error string

text \<open>The protobuf types of the chain library that the message builders fill in.\<close>

datatype ArchiveType = Zip | ArchiveType_UNRECOGNIZED

record archive =
  archive_type :: ArchiveType
  archive_content :: "byte list"

record payload =
  payload_archive :: "archive option"

record meta =
  meta_creator :: string
  meta_name :: string
  meta_description :: string
  meta_domain :: string

record deploymentValue =
  dv_meta :: meta
  dv_payload :: "payload option"

record removeValue =
  rv_creator :: string
  rv_name :: string

text \<open>
  \<^verbatim>\<open>MessageComposer.withTypeUrl\<close> wraps a value with the type URL of its message;
  the three type URLs are the three constructors.
\<close>

datatype msg =
    CreateDeployment deploymentValue
  | UpdateDeployment deploymentValue
  | RemoveDeployment removeValue

record coin =
  coin_denom :: string
  coin_amount :: string

record stdFee =
  fee_amount :: "coin list"
  fee_gas :: string

text \<open>
  The broadcast response. \<open>resp_code\<close> is the ABCI result code (an unsigned 32-bit
  number); \<open>resp_rawLog\<close> is optional in the RPC library's response type.
\<close>

record response =
  resp_code :: "32 word"
  resp_rawLog :: "string option"
  resp_transactionHash :: string

datatype Filter_Field = CREATOR | Filter_Field_UNRECOGNIZED

datatype Filter_Operator = EQUAL | Filter_Operator_UNRECOGNIZED

record filter_rec =
  filter_field :: Filter_Field
  filter_operator :: Filter_Operator
  filter_value :: string

record queryMetasRequest =
  req_filters :: "filter_rec list"

record queryMetasResponse =
  resp_meta :: "meta list"

text \<open>
  \<^verbatim>\<open>DeploymentData\<close>, the form data of the create and update dialogs. The browser's
  \<^verbatim>\<open>File\<close> object is opaque (type \<open>'f\<close>); its bytes are what
  \<^verbatim>\<open>fileToArrayBuffer\<close> reads from it.
\<close>

record 'f deploymentData =
  data_name :: string
  data_description :: string
  data_domain :: string
  data_memo :: string
  data_file :: "'f option"

text \<open>The constants of \<^verbatim>\<open>config/ghostcloud-chain\<close>, which is not among the sources.\<close>

record config =
  GHOSTCLOUD_ADDRESS_PREFIX :: string
  GHOSTCLOUD_RPC_TARGET :: string
  GHOSTCLOUD_URL_SCHEME :: string
  GHOSTCLOUD_URL_DOMAIN :: string

text \<open>
  The collaborators. \<open>'s\<close> is the wallet's signer object, \<open>'c\<close> the signing
  client, \<open>'q\<close> the read-only query client; all three are opaque to this code.
  A call that throws (or whose promise rejects) answers \<open>Inl\<close>.
\<close>

record ('f, 's, 'c, 'q) world =
  store_getAddress :: "jserror + string option"
  store_getPrivateKey :: "jserror + string"
  Buffer_from_hex :: "string \<Rightarrow> byte list"
  DirectSecp256k1Wallet_fromKey :: "byte list \<Rightarrow> string \<Rightarrow> jserror + 's"
  getSigningGhostcloudClient :: "string \<Rightarrow> 's \<Rightarrow> jserror + 'c"
  fileToArrayBuffer :: "'f \<Rightarrow> jserror + byte list"
  signAndBroadcast ::
    "'c \<Rightarrow> string \<Rightarrow> msg list \<Rightarrow> stdFee \<Rightarrow> string option \<Rightarrow> jserror + response"
  createRPCQueryClient :: "string \<Rightarrow> jserror + 'q"
  client_metas :: "'q \<Rightarrow> queryMetasRequest \<Rightarrow> jserror + queryMetasResponse"

section \<open>Asynchronous code with a trace of its calls\<close>

datatype event =
    StoreGetAddress
  | StoreGetPrivateKey
  | WalletFromKey "byte list" string
  | GetSigningGhostcloudClient string
  | FileToArrayBuffer
  | SignAndBroadcast string "msg list" stdFee "string option"
  | CreateRPCQueryClient string
  | QueryMetas queryMetasRequest
  | InvalidateQueries string

text \<open>The calls that go to the remote endpoint.\<close>

fun network_call :: "event \<Rightarrow> bool" where
  "network_call (GetSigningGhostcloudClient _) = True"
| "network_call (SignAndBroadcast _ _ _ _) = True"
| "network_call (CreateRPCQueryClient _) = True"
| "network_call (QueryMetas _) = True"
| "network_call _ = False"

text \<open>
  An \<^verbatim>\<open>async\<close> computation that has run: how it settled (rejected with an error, or
  resolved with a value) and the calls it made, in order.
\<close>

type_synonym 'a async = "(jserror + 'a) \<times> event list"

definition resolve :: "'a \<Rightarrow> 'a async" where
  "resolve x = (Inr x, [])"

definition reject :: "jserror \<Rightarrow> 'a async" where
  "reject e = (Inl e, [])"

text \<open>A call to a collaborator: the call is recorded, its answer is the outcome.\<close>

definition call :: "event \<Rightarrow> jserror + 'a \<Rightarrow> 'a async" where
  "call ev r = (r, [ev])"

text \<open>
  \<^verbatim>\<open>const x = await m; rest(x)\<close>: a rejection of \<open>m\<close> is rethrown and the rest is
  not run.
\<close>

definition await :: "'a async \<Rightarrow> ('a \<Rightarrow> 'b async) \<Rightarrow> 'b async" where
  "await m f =
     (case fst m of
        Inl e \<Rightarrow> (Inl e, snd m)
      | Inr x \<Rightarrow> (fst (f x), snd m @ snd (f x)))"

definition isResolved :: "jserror + 'a \<Rightarrow> bool" where
  "isResolved r = (case r of Inl _ \<Rightarrow> False | Inr _ \<Rightarrow> True)"

subsection \<open>Template literals\<close>

text \<open>
  \<^verbatim>\<open>${n}\<close> for a number below \<open>2 ^ 32\<close> is its decimal representation, and
  \<^verbatim>\<open>${s}\<close> for an absent string is the text \<^verbatim>\<open>undefined\<close>.
\<close>

definition digit_char :: "nat \<Rightarrow> char" where
  "digit_char d = ''0123456789'' ! d"

function decimal :: "nat \<Rightarrow> string" where
  "decimal n =
     (if n < 10 then [digit_char n] else decimal (n div 10) @ [digit_char (n mod 10)])"
  by pat_completeness auto
termination
  by (relation "measure (\<lambda>n. n)") auto

declare decimal.simps [simp del]

definition Number_toString :: "32 word \<Rightarrow> string" where
  "Number_toString c = decimal (unat c)"

definition String_of :: "string option \<Rightarrow> string" where
  "String_of s = (case s of None \<Rightarrow> ''undefined'' | Some t \<Rightarrow> t)"

section \<open>The write path\<close>

text \<open>
  \<^verbatim>\<open>createGhostcloudRpcClient\<close>: a signer from the private key, then a signing client
  for the RPC endpoint.
\<close>

definition createGhostcloudRpcClient ::
  "config \<Rightarrow> ('f, 's, 'c, 'q) world \<Rightarrow> byte list \<Rightarrow> 'c async" where
  "createGhostcloudRpcClient cfg w pk =
     await (call (WalletFromKey pk (GHOSTCLOUD_ADDRESS_PREFIX cfg))
              (DirectSecp256k1Wallet_fromKey w pk (GHOSTCLOUD_ADDRESS_PREFIX cfg)))
       (\<lambda>signer.
          call (GetSigningGhostcloudClient (GHOSTCLOUD_RPC_TARGET cfg))
            (getSigningGhostcloudClient w (GHOSTCLOUD_RPC_TARGET cfg) signer))"

text \<open>
  The message builders. A \<^verbatim>\<open>File\<close> object is always truthy, so
  \<^verbatim>\<open>if (data.file)\<close> tests whether the field is set; \<open>payload\<close> stays
  \<^verbatim>\<open>undefined\<close> otherwise.
\<close>

definition createDeploymentMsg ::
  "('f, 's, 'c, 'q) world \<Rightarrow> 'f deploymentData \<Rightarrow> string \<Rightarrow> msg async" where
  "createDeploymentMsg w d creator =
     await (case data_file d of
              None \<Rightarrow> resolve None
            | Some f \<Rightarrow>
                await (call FileToArrayBuffer (fileToArrayBuffer w f))
                  (\<lambda>buffer.
                     resolve (Some \<lparr>payload_archive =
                       Some \<lparr>archive_type = Zip, archive_content = buffer\<rparr>\<rparr>)))
       (\<lambda>payload.
          resolve (CreateDeployment
            \<lparr>dv_meta = \<lparr>meta_creator = creator, meta_name = data_name d,
                         meta_description = data_description d,
                         meta_domain = data_domain d\<rparr>,
             dv_payload = payload\<rparr>))"

definition updateDeploymentMsg ::
  "('f, 's, 'c, 'q) world \<Rightarrow> 'f deploymentData \<Rightarrow> string \<Rightarrow> msg async" where
  "updateDeploymentMsg w d creator =
     await (case data_file d of
              None \<Rightarrow> resolve None
            | Some f \<Rightarrow>
                await (call FileToArrayBuffer (fileToArrayBuffer w f))
                  (\<lambda>buffer.
                     resolve (Some \<lparr>payload_archive =
                       Some \<lparr>archive_type = Zip, archive_content = buffer\<rparr>\<rparr>)))
       (\<lambda>payload.
          resolve (UpdateDeployment
            \<lparr>dv_meta = \<lparr>meta_creator = creator, meta_name = data_name d,
                         meta_description = data_description d,
                         meta_domain = data_domain d\<rparr>,
             dv_payload = payload\<rparr>))"

definition removeDeploymentMsg :: "string \<Rightarrow> string \<Rightarrow> msg async" where
  "removeDeploymentMsg name creator =
     resolve (RemoveDeployment \<lparr>rv_creator = creator, rv_name = name\<rparr>)"

text \<open>The fee every write is sent with.\<close>

definition fixedFee :: stdFee where
  "fixedFee =
     \<lparr>fee_amount = [\<lparr>coin_denom = ''token'', coin_amount = ''1''\<rparr>],
      fee_gas = ''100000000''\<rparr>"

text \<open>
  The mutation function \<^verbatim>\<open>create\<close> of \<^verbatim>\<open>useCreateDeployment\<close>.
  \<^verbatim>\<open>!data\<close> holds for \<^verbatim>\<open>null\<close>; \<^verbatim>\<open>!creator\<close> holds for an absent address and
  for the empty string; \<^verbatim>\<open>response.code\<close> is truthy when it is not zero.
\<close>

definition create ::
  "config \<Rightarrow> ('f, 's, 'c, 'q) world \<Rightarrow> 'f deploymentData option \<Rightarrow> response async" where
  "create cfg w data =
     (case data of
        None \<Rightarrow> reject (Error ''Deployment data is empty.'')
      | Some d \<Rightarrow>
          await (call StoreGetAddress (store_getAddress w))
            (\<lambda>address.
               case address of
                 None \<Rightarrow> reject (Error ''Creator address is empty.'')
               | Some creator \<Rightarrow>
                   if creator = [] then reject (Error ''Creator address is empty.'')
                   else
                     await (call StoreGetPrivateKey (store_getPrivateKey w))
                       (\<lambda>key.
                     await (createGhostcloudRpcClient cfg w (Buffer_from_hex w key))
                       (\<lambda>client.
                     await (createDeploymentMsg w d creator)
                       (\<lambda>m.
                     await (call (SignAndBroadcast creator [m] fixedFee
                                    (Some (data_memo d)))
                              (signAndBroadcast w client creator [m] fixedFee
                                 (Some (data_memo d))))
                       (\<lambda>response.
                          if resp_code response \<noteq> 0 then
                            reject (Error (concat
                              [''Deployment creation failed with error code: '',
                               Number_toString (resp_code response), ''. Raw log: '',
                               String_of (resp_rawLog response)]))
                          else resolve response))))))"

text \<open>The mutation function \<^verbatim>\<open>update\<close> of \<^verbatim>\<open>useUpdateDeployment\<close>.\<close>

definition update ::
  "config \<Rightarrow> ('f, 's, 'c, 'q) world \<Rightarrow> 'f deploymentData option \<Rightarrow> response async" where
  "update cfg w data =
     (case data of
        None \<Rightarrow> reject (Error ''Deployment data is empty.'')
      | Some d \<Rightarrow>
          await (call StoreGetAddress (store_getAddress w))
            (\<lambda>address.
               case address of
                 None \<Rightarrow> reject (Error ''Creator address is empty.'')
               | Some creator \<Rightarrow>
                   if creator = [] then reject (Error ''Creator address is empty.'')
                   else
                     await (call StoreGetPrivateKey (store_getPrivateKey w))
                       (\<lambda>key.
                     await (createGhostcloudRpcClient cfg w (Buffer_from_hex w key))
                       (\<lambda>client.
                     await (updateDeploymentMsg w d creator)
                       (\<lambda>m.
                     await (call (SignAndBroadcast creator [m] fixedFee
                                    (Some (data_memo d)))
                              (signAndBroadcast w client creator [m] fixedFee
                                 (Some (data_memo d))))
                       (\<lambda>response.
                          if resp_code response \<noteq> 0 then
                            reject (Error (concat
                              [''Deployment update failed with error code: '',
                               Number_toString (resp_code response), ''. Raw log: '',
                               String_of (resp_rawLog response)]))
                          else resolve response))))))"

text \<open>
  The mutation function \<^verbatim>\<open>remove\<close> of \<^verbatim>\<open>useRemoveDeployment\<close>. It takes the
  deployment's name, and broadcasts without a memo.
\<close>

definition remove ::
  "config \<Rightarrow> ('f, 's, 'c, 'q) world \<Rightarrow> string \<Rightarrow> response async" where
  "remove cfg w name =
     await (call StoreGetAddress (store_getAddress w))
       (\<lambda>address.
          case address of
            None \<Rightarrow> reject (Error ''Creator address is empty.'')
          | Some creator \<Rightarrow>
              if creator = [] then reject (Error ''Creator address is empty.'')
              else
                await (call StoreGetPrivateKey (store_getPrivateKey w))
                  (\<lambda>key.
                await (createGhostcloudRpcClient cfg w (Buffer_from_hex w key))
                  (\<lambda>client.
                await (removeDeploymentMsg name creator)
                  (\<lambda>m.
                await (call (SignAndBroadcast creator [m] fixedFee None)
                         (signAndBroadcast w client creator [m] fixedFee None))
                  (\<lambda>response.
                     if resp_code response \<noteq> 0 then
                       reject (Error (concat
                         [''Deployment update failed with error code: '',
                          Number_toString (resp_code response), ''. Raw log: '',
                          String_of (resp_rawLog response)]))
                     else resolve response)))))"

subsection \<open>Mutations and the query cache\<close>

text \<open>
  \<^verbatim>\<open>useMutation({mutationFn, onSuccess})\<close>, run on its variables: \<open>onSuccess\<close> is
  called when the mutation function has resolved, and not when it has rejected.
\<close>

definition useMutation ::
  "('v \<Rightarrow> 'a async) \<Rightarrow> ('a \<Rightarrow> unit async) \<Rightarrow> 'v \<Rightarrow> 'a async" where
  "useMutation mutationFn onSuccess variables =
     await (mutationFn variables)
       (\<lambda>data. await (onSuccess data) (\<lambda>_. resolve data))"

definition invalidateQueries :: "string \<Rightarrow> unit async" where
  "invalidateQueries queryKey = call (InvalidateQueries queryKey) (Inr ())"

definition useCreateDeployment ::
  "config \<Rightarrow> ('f, 's, 'c, 'q) world \<Rightarrow> 'f deploymentData option \<Rightarrow> response async" where
  "useCreateDeployment cfg w =
     useMutation (create cfg w) (\<lambda>_. invalidateQueries ''metas'')"

definition useUpdateDeployment ::
  "config \<Rightarrow> ('f, 's, 'c, 'q) world \<Rightarrow> 'f deploymentData option \<Rightarrow> response async" where
  "useUpdateDeployment cfg w =
     useMutation (update cfg w) (\<lambda>_. invalidateQueries ''metas'')"

definition useRemoveDeployment ::
  "config \<Rightarrow> ('f, 's, 'c, 'q) world \<Rightarrow> string \<Rightarrow> response async" where
  "useRemoveDeployment cfg w =
     useMutation (remove cfg w) (\<lambda>_. invalidateQueries ''metas'')"

text \<open>
  What a trace did to a cache entry: how often its key was invalidated, and whether
  the entry, fresh before, is stale afterwards.
\<close>

definition invalidations :: "string \<Rightarrow> event list \<Rightarrow> nat" where
  "invalidations queryKey tr = length (filter (\<lambda>ev. ev = InvalidateQueries queryKey) tr)"

fun isStale :: "string \<Rightarrow> event list \<Rightarrow> bool" where
  "isStale queryKey [] = False"
| "isStale queryKey (ev # tr) = (ev = InvalidateQueries queryKey \<or> isStale queryKey tr)"

section \<open>The read path\<close>

text \<open>
  The query function \<^verbatim>\<open>list\<close> that \<^verbatim>\<open>useFetchMetas\<close> registers under the key
  \<^verbatim>\<open>"metas"\<close>. When \<^verbatim>\<open>address\<close> is falsy the function body ends without a
  \<^verbatim>\<open>return\<close>: it resolves with \<^verbatim>\<open>undefined\<close>, here \<open>None\<close>.
\<close>

definition list ::
  "config \<Rightarrow> ('f, 's, 'c, 'q) world \<Rightarrow> queryMetasResponse option async" where
  "list cfg w =
     await (call StoreGetAddress (store_getAddress w))
       (\<lambda>a.
          case a of
            None \<Rightarrow> resolve None
          | Some address \<Rightarrow>
              if address = [] then resolve None
              else
                await (call (CreateRPCQueryClient (GHOSTCLOUD_RPC_TARGET cfg))
                         (createRPCQueryClient w (GHOSTCLOUD_RPC_TARGET cfg)))
                  (\<lambda>client.
                await (call (QueryMetas
                               \<lparr>req_filters =
                                  [\<lparr>filter_field = CREATOR, filter_operator = EQUAL,
                                    filter_value = address\<rparr>]\<rparr>)
                         (client_metas w client
                            \<lparr>req_filters =
                               [\<lparr>filter_field = CREATOR, filter_operator = EQUAL,
                                 filter_value = address\<rparr>]\<rparr>))
                  (\<lambda>res. resolve (Some res))))"

section \<open>The dashboard\<close>

text \<open>\<^verbatim>\<open>createUrl\<close>: a template literal of five pieces around the two arguments.\<close>

definition createUrl :: "config \<Rightarrow> string \<Rightarrow> string \<Rightarrow> string" where
  "createUrl cfg name address =
     concat [GHOSTCLOUD_URL_SCHEME cfg, ''://'', name, ''-'', address, ''.'',
             GHOSTCLOUD_URL_DOMAIN cfg]"

section \<open>Pagination of a fetched result set\<close>

text \<open>
  Modelled from the spec: the paginated variant of \<^verbatim>\<open>useFetchMetas\<close> that the
  dashboard destructures (\<^verbatim>\<open>currentPage\<close>, \<^verbatim>\<open>pageCount\<close>, \<^verbatim>\<open>handlePageClick\<close>)
  is not among the sources; the \<^verbatim>\<open>useFetchMetas\<close> above takes no page. The spec's
  words: the page size is a client-side constant; the client fetches the filtered set
  and paginates it locally; the page is a pure function of the fetched result set and
  the requested page index; the index is clamped to \<open>[1, totalPageCount]\<close>, and a
  request beyond the bounds is not an error.
\<close>

record page =
  page_items :: "meta list"
  currentPageNumber :: int
  totalPageCount :: int

definition pageCount :: "nat \<Rightarrow> meta list \<Rightarrow> int" where
  "pageCount pageSize items = int ((length items + pageSize - 1) div pageSize)"

definition clampPage :: "int \<Rightarrow> int \<Rightarrow> int" where
  "clampPage pages p = max 1 (min pages p)"

definition pageSlice :: "nat \<Rightarrow> meta list \<Rightarrow> int \<Rightarrow> meta list" where
  "pageSlice pageSize items p = take pageSize (drop (nat (p - 1) * pageSize) items)"

definition listDeployments :: "nat \<Rightarrow> meta list \<Rightarrow> int \<Rightarrow> jserror + page" where
  "listDeployments pageSize items p =
     Inr \<lparr>page_items = pageSlice pageSize items (clampPage (pageCount pageSize items) p),
          currentPageNumber = clampPage (pageCount pageSize items) p,
          totalPageCount = pageCount pageSize items\<rparr>"

section \<open>Conditions under which a write reaches the broadcast\<close>

text \<open>
  The session has a non-empty address and a private key, and a signing client could
  be created from that key.
\<close>

definition signingReady ::
  "config \<Rightarrow> ('f, 's, 'c, 'q) world \<Rightarrow> string \<Rightarrow> string \<Rightarrow> 'c \<Rightarrow> bool" where
  "signingReady cfg w creator key client =
     (store_getAddress w = Inr (Some creator) \<and> creator \<noteq> [] \<and>
      store_getPrivateKey w = Inr key \<and>
      fst (createGhostcloudRpcClient cfg w (Buffer_from_hex w key)) = Inr client)"

section \<open>A concrete session\<close>

text \<open>
  A session whose collaborators all answer: the store holds the given address, the
  endpoint answers every broadcast with the given result code and the log
  \<^verbatim>\<open>not found\<close>. The statements below are evaluated on it.
\<close>

definition exampleConfig :: config where
  "exampleConfig =
     \<lparr>GHOSTCLOUD_ADDRESS_PREFIX = ''gc'', GHOSTCLOUD_RPC_TARGET = ''http://localhost:26657'',
      GHOSTCLOUD_URL_SCHEME = ''https'', GHOSTCLOUD_URL_DOMAIN = ''example.com''\<rparr>"

definition exampleData :: "bool \<Rightarrow> unit deploymentData" where
  "exampleData withFile =
     \<lparr>data_name = ''site1'', data_description = ''a site'', data_domain = ''site1.org'',
      data_memo = ''hello'', data_file = (if withFile then Some () else None)\<rparr>"

definition exampleMeta :: meta where
  "exampleMeta =
     \<lparr>meta_creator = ''gc1abc'', meta_name = ''site1'', meta_description = ''a site'',
      meta_domain = ''site1.org''\<rparr>"

definition exampleResponse :: "32 word \<Rightarrow> response" where
  "exampleResponse c =
     \<lparr>resp_code = c, resp_rawLog = Some ''not found'', resp_transactionHash = ''AB12''\<rparr>"

definition exampleFilter :: filter_rec where
  "exampleFilter =
     \<lparr>filter_field = CREATOR, filter_operator = EQUAL, filter_value = ''gc1abc''\<rparr>"

definition exampleWorld :: "string option \<Rightarrow> 32 word \<Rightarrow> (unit, unit, unit, unit) world" where
  "exampleWorld address c =
     \<lparr>store_getAddress = Inr address,
      store_getPrivateKey = Inr ''00ff'',
      Buffer_from_hex = (\<lambda>_. [0, 255]),
      DirectSecp256k1Wallet_fromKey = (\<lambda>_ _. Inr ()),
      getSigningGhostcloudClient = (\<lambda>_ _. Inr ()),
      fileToArrayBuffer = (\<lambda>_. Inr [80, 75, 3, 4]),
      signAndBroadcast = (\<lambda>_ _ _ _ _. Inr (exampleResponse c)),
      createRPCQueryClient = (\<lambda>_. Inr ()),
      client_metas = (\<lambda>_ _. Inr \<lparr>resp_meta = [exampleMeta]\<rparr>)\<rparr>"

text \<open>
  The same session with an endpoint that refuses the signing connection, and with one
  that drops the broadcast.
\<close>

definition unreachableWorld :: "(unit, unit, unit, unit) world" where
  "unreachableWorld =
     (exampleWorld (Some ''gc1abc'') 0)
       \<lparr>getSigningGhostcloudClient := (\<lambda>_ _. Inl (Error ''connection refused''))\<rparr>"

definition droppedWorld :: "(unit, unit, unit, unit) world" where
  "droppedWorld =
     (exampleWorld (Some ''gc1abc'') 0)
       \<lparr>signAndBroadcast := (\<lambda>_ _ _ _ _. Inl (Error ''timeout''))\<rparr>"

definition exampleItems :: "meta list" where
  "exampleItems =
     map (\<lambda>n. \<lparr>meta_creator = ''gc1abc'', meta_name = n, meta_description = [],
                 meta_domain = []\<rparr>)
       [''a'', ''b'', ''c'', ''d'', ''e'']"

section \<open>Settled computations\<close>

lemma fst_await:
  "fst (await m f) = (case fst m of Inl e \<Rightarrow> Inl e | Inr x \<Rightarrow> fst (f x))"
  by (simp add: await_def split: sum.splits)

lemma snd_await:
  "snd (await m f) = (case fst m of Inl e \<Rightarrow> snd m | Inr x \<Rightarrow> snd m @ snd (f x))"
  by (simp add: await_def split: sum.splits)

lemma fst_call: "fst (call ev r) = r"
  by (simp add: call_def)

lemma snd_call: "snd (call ev r) = [ev]"
  by (simp add: call_def)

lemma fst_resolve: "fst (resolve x) = Inr x"
  by (simp add: resolve_def)

lemma snd_resolve: "snd (resolve x) = []"
  by (simp add: resolve_def)

lemma fst_reject: "fst (reject e) = Inl e"
  by (simp add: reject_def)

lemma snd_reject: "snd (reject e) = []"
  by (simp add: reject_def)

lemmas async_simps = fst_await snd_await fst_call snd_call fst_resolve snd_resolve
  fst_reject snd_reject





subsection \<open>Only the mutation wrapper touches the cache\<close>

lemma no_inval_client:
  "InvalidateQueries k \<notin> set (snd (createGhostcloudRpcClient cfg w pk))"
  by (simp add: createGhostcloudRpcClient_def async_simps split: sum.splits)

lemma no_inval_createMsg: "InvalidateQueries k \<notin> set (snd (createDeploymentMsg w d c))"
  by (simp add: createDeploymentMsg_def async_simps split: sum.splits option.splits)

lemma no_inval_updateMsg: "InvalidateQueries k \<notin> set (snd (updateDeploymentMsg w d c))"
  by (simp add: updateDeploymentMsg_def async_simps split: sum.splits option.splits)

lemma no_inval_create: "InvalidateQueries k \<notin> set (snd (create cfg w data))"
  by (simp add: create_def async_simps no_inval_client no_inval_createMsg
      split: sum.splits option.splits)

lemma no_inval_update: "InvalidateQueries k \<notin> set (snd (update cfg w data))"
  by (simp add: update_def async_simps no_inval_client no_inval_updateMsg
      split: sum.splits option.splits)

lemma no_inval_remove: "InvalidateQueries k \<notin> set (snd (remove cfg w name))"
  by (simp add: remove_def removeDeploymentMsg_def async_simps no_inval_client
      split: sum.splits option.splits)

lemma invalidations_append:
  "invalidations k (xs @ ys) = invalidations k xs + invalidations k ys"
  by (simp add: invalidations_def)

lemma invalidations_none: "InvalidateQueries k \<notin> set tr \<Longrightarrow> invalidations k tr = 0"
  by (induction tr) (auto simp: invalidations_def)

lemma isStale_iff: "isStale k tr \<longleftrightarrow> InvalidateQueries k \<in> set tr"
  by (induction tr) auto

lemma useMutation_invalidate_fst:
  "fst (useMutation f (\<lambda>_. invalidateQueries k) v) = fst (f v)"
  by (simp add: useMutation_def invalidateQueries_def async_simps split: sum.splits)

lemma useMutation_invalidate_snd:
  "snd (useMutation f (\<lambda>_. invalidateQueries k) v) =
     snd (f v) @ (if isResolved (fst (f v)) then [InvalidateQueries k] else [])"
  by (simp add: useMutation_def invalidateQueries_def async_simps isResolved_def
      split: sum.splits)

lemma useMutation_invalidations:
  assumes "InvalidateQueries k \<notin> set (snd (f v))"
  shows "invalidations k (snd (useMutation f (\<lambda>_. invalidateQueries k) v)) =
           (if isResolved (fst (useMutation f (\<lambda>_. invalidateQueries k) v)) then 1 else 0)"
  using assms
  by (simp add: useMutation_invalidate_fst useMutation_invalidate_snd invalidations_append
      invalidations_none) (simp add: invalidations_def)

lemma useMutation_stale:
  assumes "InvalidateQueries k \<notin> set (snd (f v))"
  shows "isStale k (snd (useMutation f (\<lambda>_. invalidateQueries k) v)) =
           isResolved (fst (useMutation f (\<lambda>_. invalidateQueries k) v))"
  using assms
  by (simp add: useMutation_invalidate_fst useMutation_invalidate_snd isStale_iff)

subsection \<open>What a write resolves with\<close>

lemma create_resolved_code: "fst (create cfg w data) = Inr r \<Longrightarrow> resp_code r = 0"
  by (simp add: create_def async_simps split: sum.splits option.splits if_splits)

lemma update_resolved_code: "fst (update cfg w data) = Inr r \<Longrightarrow> resp_code r = 0"
  by (simp add: update_def async_simps split: sum.splits option.splits if_splits)

lemma remove_resolved_code: "fst (remove cfg w name) = Inr r \<Longrightarrow> resp_code r = 0"
  by (simp add: remove_def async_simps split: sum.splits option.splits if_splits)

lemma signingReady_prefix:
  assumes "signingReady cfg w creator key client"
  shows "store_getAddress w = Inr (Some creator)" and "creator \<noteq> []"
    and "store_getPrivateKey w = Inr key"
    and "fst (createGhostcloudRpcClient cfg w (Buffer_from_hex w key)) = Inr client"
  using assms by (simp_all add: signingReady_def)

lemma create_at_broadcast:
  assumes "signingReady cfg w creator key client"
    and "fst (createDeploymentMsg w d creator) = Inr m"
    and "signAndBroadcast w client creator [m] fixedFee (Some (data_memo d)) = Inr r"
  shows "fst (create cfg w (Some d)) =
           (if resp_code r = 0 then Inr r
            else Inl (Error (''Deployment creation failed with error code: '' @
                   Number_toString (resp_code r) @ ''. Raw log: '' @
                   String_of (resp_rawLog r))))"
  using assms(2,3) signingReady_prefix [OF assms(1)]
  by (simp add: create_def async_simps)

lemma update_at_broadcast:
  assumes "signingReady cfg w creator key client"
    and "fst (updateDeploymentMsg w d creator) = Inr m"
    and "signAndBroadcast w client creator [m] fixedFee (Some (data_memo d)) = Inr r"
  shows "fst (update cfg w (Some d)) =
           (if resp_code r = 0 then Inr r
            else Inl (Error (''Deployment update failed with error code: '' @
                   Number_toString (resp_code r) @ ''. Raw log: '' @
                   String_of (resp_rawLog r))))"
  using assms(2,3) signingReady_prefix [OF assms(1)]
  by (simp add: update_def async_simps)

lemma remove_at_broadcast:
  assumes "signingReady cfg w creator key client"
    and "signAndBroadcast w client creator
           [RemoveDeployment \<lparr>rv_creator = creator, rv_name = name\<rparr>] fixedFee None = Inr r"
  shows "fst (remove cfg w name) =
           (if resp_code r = 0 then Inr r
            else Inl (Error (''Deployment update failed with error code: '' @
                   Number_toString (resp_code r) @ ''. Raw log: '' @
                   String_of (resp_rawLog r))))"
  using assms(2) signingReady_prefix [OF assms(1)]
  by (simp add: remove_def removeDeploymentMsg_def async_simps)

subsection \<open>The stages of a write\<close>

lemma hook_fst:
  "fst (useCreateDeployment cfg w x) = fst (create cfg w x)"
  "fst (useUpdateDeployment cfg w x) = fst (update cfg w x)"
  "fst (useRemoveDeployment cfg w name) = fst (remove cfg w name)"
  by (simp_all add: useCreateDeployment_def useUpdateDeployment_def
      useRemoveDeployment_def useMutation_invalidate_fst)

lemma hook_count:
  "invalidations ''metas'' (snd (useCreateDeployment cfg w x)) =
     (if isResolved (fst (create cfg w x)) then 1 else 0)"
  "invalidations ''metas'' (snd (useUpdateDeployment cfg w x)) =
     (if isResolved (fst (update cfg w x)) then 1 else 0)"
  "invalidations ''metas'' (snd (useRemoveDeployment cfg w name)) =
     (if isResolved (fst (remove cfg w name)) then 1 else 0)"
  using useMutation_invalidations [of "''metas''" "create cfg w" x, OF no_inval_create]
    useMutation_invalidations [of "''metas''" "update cfg w" x, OF no_inval_update]
    useMutation_invalidations [of "''metas''" "remove cfg w" name, OF no_inval_remove]
  by (simp_all add: useCreateDeployment_def useUpdateDeployment_def
      useRemoveDeployment_def useMutation_invalidate_fst)

lemma hook_stale:
  "isStale ''metas'' (snd (useCreateDeployment cfg w x)) = isResolved (fst (create cfg w x))"
  "isStale ''metas'' (snd (useUpdateDeployment cfg w x)) = isResolved (fst (update cfg w x))"
  "isStale ''metas'' (snd (useRemoveDeployment cfg w name)) =
     isResolved (fst (remove cfg w name))"
  using useMutation_stale [of "''metas''" "create cfg w" x, OF no_inval_create]
    useMutation_stale [of "''metas''" "update cfg w" x, OF no_inval_update]
    useMutation_stale [of "''metas''" "remove cfg w" name, OF no_inval_remove]
  by (simp_all add: useCreateDeployment_def useUpdateDeployment_def
      useRemoveDeployment_def useMutation_invalidate_fst)

lemma create_resolved_iff:
  "isResolved (fst (create cfg w data)) \<longleftrightarrow>
     (\<exists>d creator key client m r. data = Some d \<and> signingReady cfg w creator key client \<and>
        fst (createDeploymentMsg w d creator) = Inr m \<and>
        signAndBroadcast w client creator [m] fixedFee (Some (data_memo d)) = Inr r \<and>
        resp_code r = 0)"
  by (auto simp: create_def signingReady_def isResolved_def async_simps
      split: sum.splits option.splits if_splits)

lemma update_resolved_iff:
  "isResolved (fst (update cfg w data)) \<longleftrightarrow>
     (\<exists>d creator key client m r. data = Some d \<and> signingReady cfg w creator key client \<and>
        fst (updateDeploymentMsg w d creator) = Inr m \<and>
        signAndBroadcast w client creator [m] fixedFee (Some (data_memo d)) = Inr r \<and>
        resp_code r = 0)"
  by (auto simp: update_def signingReady_def isResolved_def async_simps
      split: sum.splits option.splits if_splits)

lemma remove_resolved_iff:
  "isResolved (fst (remove cfg w name)) \<longleftrightarrow>
     (\<exists>creator key client r. signingReady cfg w creator key client \<and>
        signAndBroadcast w client creator
          [RemoveDeployment \<lparr>rv_creator = creator, rv_name = name\<rparr>] fixedFee None = Inr r \<and>
        resp_code r = 0)"
  by (auto simp: remove_def removeDeploymentMsg_def signingReady_def isResolved_def
      async_simps split: sum.splits option.splits if_splits)

lemma missing_creator_rejects:
  assumes "store_getAddress w = Inr a" and "a = None \<or> a = Some []"
  shows "fst (create cfg w (Some d)) = Inl (Error ''Creator address is empty.'')"
    and "fst (update cfg w (Some d)) = Inl (Error ''Creator address is empty.'')"
    and "fst (remove cfg w name) = Inl (Error ''Creator address is empty.'')"
  using assms by (auto simp: create_def update_def remove_def async_simps)

lemma connection_failure_rejects:
  assumes "store_getAddress w = Inr (Some creator)" and "creator \<noteq> []"
    and "store_getPrivateKey w = Inr key"
    and "fst (createGhostcloudRpcClient cfg w (Buffer_from_hex w key)) = Inl e"
  shows "fst (create cfg w (Some d)) = Inl e" and "fst (update cfg w (Some d)) = Inl e"
    and "fst (remove cfg w name) = Inl e"
  using assms by (simp_all add: create_def update_def remove_def async_simps)

lemma broadcast_failure_rejects:
  assumes "signingReady cfg w creator key client"
  shows "fst (createDeploymentMsg w d creator) = Inr mc \<Longrightarrow>
         signAndBroadcast w client creator [mc] fixedFee (Some (data_memo d)) = Inl e \<Longrightarrow>
         fst (create cfg w (Some d)) = Inl e"
    and "fst (updateDeploymentMsg w d creator) = Inr mu \<Longrightarrow>
         signAndBroadcast w client creator [mu] fixedFee (Some (data_memo d)) = Inl e \<Longrightarrow>
         fst (update cfg w (Some d)) = Inl e"
    and "signAndBroadcast w client creator
           [RemoveDeployment \<lparr>rv_creator = creator, rv_name = name\<rparr>] fixedFee None =
             Inl e \<Longrightarrow>
         fst (remove cfg w name) = Inl e"
  using signingReady_prefix [OF assms]
  by (simp_all add: create_def update_def remove_def removeDeploymentMsg_def async_simps)

lemma count_at_broadcast_createDeploymentMsg:
  "(signingReady cfg w creator key client \<longrightarrow>
      fst (createDeploymentMsg w d creator) = Inr mc \<longrightarrow>
      signAndBroadcast w client creator [mc] fixedFee (Some (data_memo d)) = Inr rc \<longrightarrow>
      invalidations ''metas'' (snd (useCreateDeployment cfg w (Some d))) =
        (if resp_code rc = 0 then 1 else 0))"
  by (simp add: hook_count create_at_broadcast isResolved_def)

lemma count_at_broadcast_updateDeploymentMsg:
  "(signingReady cfg w creator key client \<longrightarrow>
      fst (updateDeploymentMsg w d creator) = Inr mu \<longrightarrow>
      signAndBroadcast w client creator [mu] fixedFee (Some (data_memo d)) = Inr ru \<longrightarrow>
      invalidations ''metas'' (snd (useUpdateDeployment cfg w (Some d))) =
        (if resp_code ru = 0 then 1 else 0))"
  by (simp add: hook_count update_at_broadcast isResolved_def)

lemma count_at_broadcast_remove:
  "(signingReady cfg w creator key client \<longrightarrow>
      signAndBroadcast w client creator
        [RemoveDeployment \<lparr>rv_creator = creator, rv_name = name\<rparr>] fixedFee None =
          Inr rr \<longrightarrow>
      invalidations ''metas'' (snd (useRemoveDeployment cfg w name)) =
        (if resp_code rr = 0 then 1 else 0))"
  by (simp add: hook_count remove_at_broadcast isResolved_def)

lemma count_useCreateDeployment:
  "invalidations ''metas'' (snd (useCreateDeployment cfg w data)) =
     (if isResolved (fst (useCreateDeployment cfg w data)) then 1 else 0)"
  by (simp add: hook_count hook_fst)

lemma count_useUpdateDeployment:
  "invalidations ''metas'' (snd (useUpdateDeployment cfg w data)) =
     (if isResolved (fst (useUpdateDeployment cfg w data)) then 1 else 0)"
  by (simp add: hook_count hook_fst)

lemma count_useRemoveDeployment:
  "invalidations ''metas'' (snd (useRemoveDeployment cfg w name)) =
     (if isResolved (fst (useRemoveDeployment cfg w name)) then 1 else 0)"
  by (simp add: hook_count hook_fst)

lemma stale_useCreateDeployment:
  "isStale ''metas'' (snd (useCreateDeployment cfg w data)) =
     isResolved (fst (useCreateDeployment cfg w data))"
  by (simp add: hook_stale hook_fst)

lemma stale_useUpdateDeployment:
  "isStale ''metas'' (snd (useUpdateDeployment cfg w data)) =
     isResolved (fst (useUpdateDeployment cfg w data))"
  by (simp add: hook_stale hook_fst)

lemma stale_useRemoveDeployment:
  "isStale ''metas'' (snd (useRemoveDeployment cfg w name)) =
     isResolved (fst (useRemoveDeployment cfg w name))"
  by (simp add: hook_stale hook_fst)

lemma code_useCreateDeployment:
  "(fst (useCreateDeployment cfg w data) = Inr r \<longrightarrow> resp_code r = 0)"
  using create_resolved_code [of cfg w data r] by (simp add: hook_fst)

lemma code_useUpdateDeployment:
  "(fst (useUpdateDeployment cfg w data) = Inr r \<longrightarrow> resp_code r = 0)"
  using update_resolved_code [of cfg w data r] by (simp add: hook_fst)

lemma code_useRemoveDeployment:
  "(fst (useRemoveDeployment cfg w name) = Inr r \<longrightarrow> resp_code r = 0)"
  using remove_resolved_code [of cfg w name r] by (simp add: hook_fst)

lemma resolved_iff_useCreateDeployment:
  "(isResolved (fst (useCreateDeployment cfg w data)) \<longleftrightarrow>
      (\<exists>d' creator' key' client' m' r'.
         data = Some d' \<and> signingReady cfg w creator' key' client' \<and>
         fst (createDeploymentMsg w d' creator') = Inr m' \<and>
         signAndBroadcast w client' creator' [m'] fixedFee (Some (data_memo d')) = Inr r' \<and>
         resp_code r' = 0))"
  unfolding hook_fst by (rule create_resolved_iff)

lemma resolved_iff_useUpdateDeployment:
  "(isResolved (fst (useUpdateDeployment cfg w data)) \<longleftrightarrow>
      (\<exists>d' creator' key' client' m' r'.
         data = Some d' \<and> signingReady cfg w creator' key' client' \<and>
         fst (updateDeploymentMsg w d' creator') = Inr m' \<and>
         signAndBroadcast w client' creator' [m'] fixedFee (Some (data_memo d')) = Inr r' \<and>
         resp_code r' = 0))"
  unfolding hook_fst by (rule update_resolved_iff)

lemma resolved_iff_useRemoveDeployment:
  "(isResolved (fst (useRemoveDeployment cfg w name)) \<longleftrightarrow>
      (\<exists>creator' key' client' r'.
         signingReady cfg w creator' key' client' \<and>
         signAndBroadcast w client' creator'
           [RemoveDeployment \<lparr>rv_creator = creator', rv_name = name\<rparr>] fixedFee None =
             Inr r' \<and>
         resp_code r' = 0))"
  unfolding hook_fst by (rule remove_resolved_iff)

lemma count_missing_creator:
  "(store_getAddress w = Inr a \<longrightarrow> a = None \<or> a = Some [] \<longrightarrow>
      invalidations ''metas'' (snd (useCreateDeployment cfg w (Some d))) = 0 \<and>
      invalidations ''metas'' (snd (useUpdateDeployment cfg w (Some d))) = 0 \<and>
      invalidations ''metas'' (snd (useRemoveDeployment cfg w name)) = 0)"
  by (simp add: hook_count missing_creator_rejects isResolved_def)

lemma count_connection_failure:
  "(store_getAddress w = Inr (Some creator) \<longrightarrow> creator \<noteq> [] \<longrightarrow>
      store_getPrivateKey w = Inr key \<longrightarrow>
      fst (createGhostcloudRpcClient cfg w (Buffer_from_hex w key)) = Inl e \<longrightarrow>
      fst (useCreateDeployment cfg w (Some d)) = Inl e \<and>
      fst (useUpdateDeployment cfg w (Some d)) = Inl e \<and>
      fst (useRemoveDeployment cfg w name) = Inl e \<and>
      invalidations ''metas'' (snd (useCreateDeployment cfg w (Some d))) = 0 \<and>
      invalidations ''metas'' (snd (useUpdateDeployment cfg w (Some d))) = 0 \<and>
      invalidations ''metas'' (snd (useRemoveDeployment cfg w name)) = 0)"
  by (simp add: hook_count hook_fst connection_failure_rejects isResolved_def)

lemma count_broadcast_failure_useCreateDeployment:
  "(signingReady cfg w creator key client \<longrightarrow>
      fst (createDeploymentMsg w d creator) = Inr mc \<longrightarrow>
      signAndBroadcast w client creator [mc] fixedFee (Some (data_memo d)) = Inl e \<longrightarrow>
      fst (useCreateDeployment cfg w (Some d)) = Inl e \<and>
      invalidations ''metas'' (snd (useCreateDeployment cfg w (Some d))) = 0)"
  by (simp add: hook_count hook_fst broadcast_failure_rejects isResolved_def)

lemma count_broadcast_failure_useUpdateDeployment:
  "(signingReady cfg w creator key client \<longrightarrow>
      fst (updateDeploymentMsg w d creator) = Inr mu \<longrightarrow>
      signAndBroadcast w client creator [mu] fixedFee (Some (data_memo d)) = Inl e \<longrightarrow>
      fst (useUpdateDeployment cfg w (Some d)) = Inl e \<and>
      invalidations ''metas'' (snd (useUpdateDeployment cfg w (Some d))) = 0)"
  by (simp add: hook_count hook_fst broadcast_failure_rejects isResolved_def)

lemma count_broadcast_failure_useRemoveDeployment:
  "(signingReady cfg w creator key client \<longrightarrow>
      signAndBroadcast w client creator
        [RemoveDeployment \<lparr>rv_creator = creator, rv_name = name\<rparr>] fixedFee None =
          Inl e \<longrightarrow>
      fst (useRemoveDeployment cfg w name) = Inl e \<and>
      invalidations ''metas'' (snd (useRemoveDeployment cfg w name)) = 0)"
  by (simp add: hook_count hook_fst broadcast_failure_rejects isResolved_def)

lemmas write_stage_facts =
  count_at_broadcast_createDeploymentMsg
  count_at_broadcast_updateDeploymentMsg
  count_at_broadcast_remove
  count_useCreateDeployment
  count_useUpdateDeployment
  count_useRemoveDeployment
  stale_useCreateDeployment
  stale_useUpdateDeployment
  stale_useRemoveDeployment
  code_useCreateDeployment
  code_useUpdateDeployment
  code_useRemoveDeployment
  resolved_iff_useCreateDeployment
  resolved_iff_useUpdateDeployment
  resolved_iff_useRemoveDeployment
  count_missing_creator
  count_connection_failure
  count_broadcast_failure_useCreateDeployment
  count_broadcast_failure_useUpdateDeployment
  count_broadcast_failure_useRemoveDeployment

subsection \<open>Page arithmetic\<close>

lemma pageCount_covers:
  assumes "0 < pageSize"
  shows "length items \<le> nat (pageCount pageSize items) * pageSize"
proof -
  let ?a = "length items + pageSize - 1"
  have "?a mod pageSize < pageSize"
    using assms by simp
  moreover have "?a div pageSize * pageSize + ?a mod pageSize = ?a"
    by (rule div_mult_mod_eq)
  ultimately have "length items \<le> ?a div pageSize * pageSize"
    by linarith
  then show ?thesis by (simp add: pageCount_def)
qed

lemma clampPage_low: "p < 1 \<Longrightarrow> clampPage n p = 1"
  by (simp add: clampPage_def)

lemma clampPage_high: "n < p \<Longrightarrow> clampPage n p = max 1 n"
  by (simp add: clampPage_def)

lemma last_slice:
  assumes "0 < pageSize"
  shows "pageSlice pageSize items (max 1 (pageCount pageSize items)) =
           drop ((nat (pageCount pageSize items) - 1) * pageSize) items"
proof -
  let ?c = "nat (pageCount pageSize items)"
  have eq: "nat (max 1 (pageCount pageSize items) - 1) = ?c - 1"
    by (simp add: pageCount_def)
  have "length items \<le> ?c * pageSize"
    by (rule pageCount_covers [OF assms])
  then have "length items - (?c - 1) * pageSize \<le> pageSize"
    by (cases ?c) (simp_all add: algebra_simps)
  then show ?thesis
    unfolding pageSlice_def eq by simp
qed

subsection \<open>The concrete session, evaluated\<close>

lemma exampleWorld_ready:
  "signingReady exampleConfig (exampleWorld (Some ''gc1abc'') c) ''gc1abc'' ''00ff'' ()"
  by (simp add: signingReady_def exampleWorld_def createGhostcloudRpcClient_def async_simps)

lemma example_createMsg:
  "fst (createDeploymentMsg (exampleWorld a c) (exampleData False) ''gc1abc'') =
     Inr (CreateDeployment \<lparr>dv_meta = exampleMeta, dv_payload = None\<rparr>)"
  by (simp add: createDeploymentMsg_def exampleData_def exampleMeta_def async_simps)

lemma example_updateMsg:
  "fst (updateDeploymentMsg (exampleWorld a c) (exampleData True) ''gc1abc'') =
     Inr (UpdateDeployment
       \<lparr>dv_meta = exampleMeta,
        dv_payload = Some \<lparr>payload_archive =
          Some \<lparr>archive_type = Zip, archive_content = [80, 75, 3, 4]\<rparr>\<rparr>\<rparr>)"
  by (simp add: updateDeploymentMsg_def exampleData_def exampleMeta_def exampleWorld_def
      async_simps)

lemma example_createMsg_file:
  "fst (createDeploymentMsg (exampleWorld a c) (exampleData True) ''gc1abc'') =
     Inr (CreateDeployment
       \<lparr>dv_meta = exampleMeta,
        dv_payload = Some \<lparr>payload_archive =
          Some \<lparr>archive_type = Zip, archive_content = [80, 75, 3, 4]\<rparr>\<rparr>\<rparr>)"
  by (simp add: createDeploymentMsg_def exampleData_def exampleMeta_def exampleWorld_def
      async_simps)

lemma example_broadcast:
  "signAndBroadcast (exampleWorld a c) client creator ms fee memo = Inr (exampleResponse c)"
  by (simp add: exampleWorld_def)

lemma unreachable_address: "store_getAddress unreachableWorld = Inr (Some ''gc1abc'')"
  by (simp add: unreachableWorld_def exampleWorld_def)

lemma unreachable_nonempty: "''gc1abc'' \<noteq> []"
  by simp

lemma unreachable_key: "store_getPrivateKey unreachableWorld = Inr ''00ff''"
  by (simp add: unreachableWorld_def exampleWorld_def)

lemma unreachable_client:
  "fst (createGhostcloudRpcClient exampleConfig unreachableWorld
          (Buffer_from_hex unreachableWorld ''00ff'')) = Inl (Error ''connection refused'')"
  by (simp add: unreachableWorld_def exampleWorld_def createGhostcloudRpcClient_def
      async_simps)

lemma dropped_ready: "signingReady exampleConfig droppedWorld ''gc1abc'' ''00ff'' ()"
  by (simp add: signingReady_def droppedWorld_def exampleWorld_def
      createGhostcloudRpcClient_def async_simps)

lemma dropped_broadcast:
  "signAndBroadcast droppedWorld client creator ms fee memo = Inl (Error ''timeout'')"
  by (simp add: droppedWorld_def exampleWorld_def)

lemma example_updateMsg_nofile:
  "fst (updateDeploymentMsg (exampleWorld a c) (exampleData False) ''gc1abc'') =
     Inr (UpdateDeployment \<lparr>dv_meta = exampleMeta, dv_payload = None\<rparr>)"
  by (simp add: updateDeploymentMsg_def exampleData_def exampleMeta_def async_simps)

lemma example_pageCount: "pageCount 2 exampleItems = 3"
  by (simp add: pageCount_def exampleItems_def)

section \<open>The claims\<close>

text \<open>
  C3. When the address the store resolves is empty (absent, or the empty string), each
  of the three writes, given a request, fails with the error
  \<^verbatim>\<open>Creator address is empty.\<close>, and the only call it has made is the one that
  asked the store for the address: no private key is read, no signer or signing
  client is created, nothing is broadcast, nothing is invalidated, so no call went to
  the network.
\<close>

theorem missing_creator_no_network_call:
  assumes "store_getAddress w = Inr a" and "a = None \<or> a = Some []"
  shows "useCreateDeployment cfg w (Some d) =
           (Inl (Error ''Creator address is empty.''), [StoreGetAddress])
       \<and> useUpdateDeployment cfg w (Some d) =
           (Inl (Error ''Creator address is empty.''), [StoreGetAddress])
       \<and> useRemoveDeployment cfg w name =
           (Inl (Error ''Creator address is empty.''), [StoreGetAddress])
       \<and> filter network_call [StoreGetAddress] = []"
  using assms
  by (auto simp: prod_eq_iff useCreateDeployment_def useUpdateDeployment_def
      useRemoveDeployment_def useMutation_invalidate_fst useMutation_invalidate_snd
      create_def update_def remove_def async_simps isResolved_def)

theorem missing_creator_no_network_call_witness:
  "useCreateDeployment exampleConfig (exampleWorld None 0) (Some (exampleData True)) =
     (Inl (Error ''Creator address is empty.''), [StoreGetAddress])
 \<and> useUpdateDeployment exampleConfig (exampleWorld None 0) (Some (exampleData True)) =
     (Inl (Error ''Creator address is empty.''), [StoreGetAddress])
 \<and> useRemoveDeployment exampleConfig (exampleWorld (Some []) 0) ''site1'' =
     (Inl (Error ''Creator address is empty.''), [StoreGetAddress])"
proof -
  have none: "store_getAddress (exampleWorld None 0) = Inr None"
    and empty: "store_getAddress (exampleWorld (Some []) 0) = Inr (Some [])"
    by (simp_all add: exampleWorld_def)
  show ?thesis
    using missing_creator_no_network_call [OF none, of exampleConfig "exampleData True"]
      missing_creator_no_network_call [OF empty, of exampleConfig _ "''site1''"]
    by simp
qed

text \<open>
  C9. When the store holds no address (absent, or the empty string), the query function
  \<open>list\<close> resolves with \<^verbatim>\<open>undefined\<close>; it has asked the store for the address and
  made no other call, so none went to the network, and it has not failed.
\<close>

theorem list_without_address:
  assumes "store_getAddress w = Inr a" and "a = None \<or> a = Some []"
  shows "list cfg w = (Inr None, [StoreGetAddress])
       \<and> filter network_call (snd (list cfg w)) = []"
  using assms by (auto simp: prod_eq_iff list_def async_simps)

theorem list_without_address_witness:
  "list exampleConfig (exampleWorld None 0) = (Inr None, [StoreGetAddress])
 \<and> filter network_call (snd (list exampleConfig (exampleWorld None 0))) = []"
proof -
  have none: "store_getAddress (exampleWorld None 0) = Inr None"
    by (simp add: exampleWorld_def)
  show ?thesis
    using list_without_address [OF none, of exampleConfig] by simp
qed



text \<open>
  C10. When the endpoint answers a remove with a non-zero code, the error the remove
  rejects with begins with \<^verbatim>\<open>Deployment update failed with error code:\<close>; an update
  that the endpoint answers with the same response rejects with the same error, so the
  text does not tell a removal from an update.
\<close>

theorem remove_rejection_reads_update:
  assumes "signingReady cfg w creator key client"
    and "signAndBroadcast w client creator
           [RemoveDeployment \<lparr>rv_creator = creator, rv_name = name\<rparr>] fixedFee None = Inr r"
    and "resp_code r \<noteq> 0"
  shows "(\<exists>rest. fst (useRemoveDeployment cfg w name) =
            Inl (Error (''Deployment update failed with error code: '' @ rest)))
       \<and> (fst (updateDeploymentMsg w d creator) = Inr m \<longrightarrow>
          signAndBroadcast w client creator [m] fixedFee (Some (data_memo d)) = Inr r \<longrightarrow>
          fst (useUpdateDeployment cfg w (Some d)) = fst (useRemoveDeployment cfg w name))"
  using update_at_broadcast [OF assms(1)] remove_at_broadcast [OF assms(1,2)] assms(3)
  by (simp add: useUpdateDeployment_def useRemoveDeployment_def useMutation_invalidate_fst)

theorem remove_rejection_reads_update_witness:
  "resp_code (exampleResponse 5) \<noteq> 0
 \<and> fst (useUpdateDeployment exampleConfig (exampleWorld (Some ''gc1abc'') 5)
          (Some (exampleData True))) =
     fst (useRemoveDeployment exampleConfig (exampleWorld (Some ''gc1abc'') 5) ''site1'')"
proof -
  have code: "resp_code (exampleResponse 5) \<noteq> 0"
    by (simp add: exampleResponse_def)
  show ?thesis
    using code
      remove_rejection_reads_update
        [OF exampleWorld_ready example_broadcast code, THEN conjunct2, rule_format,
          OF example_updateMsg example_broadcast, of "''site1''"]
    by simp
qed

text \<open>
  C1. For each of the three writes: when the write has reached the broadcast and the
  endpoint has answered, the key \<^verbatim>\<open>metas\<close> is invalidated once if the response's
  code is zero and not at all otherwise; and whatever the collaborators answer, at
  whatever stage the write fails, the number of invalidations of \<^verbatim>\<open>metas\<close> is one
  if the write resolved and zero if it rejected, the cache entry is stale afterwards
  exactly when the write resolved, and a write only resolves with a response whose code
  is zero. A write resolves exactly when there is a request, a non-empty address, a
  key, a signing client, a message and a broadcast answer with code zero. In
  particular a missing creator, a failed signer or signing connection, and a failed
  broadcast each make the write reject and leave \<^verbatim>\<open>metas\<close> untouched.
\<close>

theorem metas_invalidated_iff_write_succeeded:
  "(signingReady cfg w creator key client \<longrightarrow>
      fst (createDeploymentMsg w d creator) = Inr mc \<longrightarrow>
      signAndBroadcast w client creator [mc] fixedFee (Some (data_memo d)) = Inr rc \<longrightarrow>
      invalidations ''metas'' (snd (useCreateDeployment cfg w (Some d))) =
        (if resp_code rc = 0 then 1 else 0))
 \<and> (signingReady cfg w creator key client \<longrightarrow>
      fst (updateDeploymentMsg w d creator) = Inr mu \<longrightarrow>
      signAndBroadcast w client creator [mu] fixedFee (Some (data_memo d)) = Inr ru \<longrightarrow>
      invalidations ''metas'' (snd (useUpdateDeployment cfg w (Some d))) =
        (if resp_code ru = 0 then 1 else 0))
 \<and> (signingReady cfg w creator key client \<longrightarrow>
      signAndBroadcast w client creator
        [RemoveDeployment \<lparr>rv_creator = creator, rv_name = name\<rparr>] fixedFee None =
          Inr rr \<longrightarrow>
      invalidations ''metas'' (snd (useRemoveDeployment cfg w name)) =
        (if resp_code rr = 0 then 1 else 0))
 \<and> invalidations ''metas'' (snd (useCreateDeployment cfg w data)) =
     (if isResolved (fst (useCreateDeployment cfg w data)) then 1 else 0)
 \<and> invalidations ''metas'' (snd (useUpdateDeployment cfg w data)) =
     (if isResolved (fst (useUpdateDeployment cfg w data)) then 1 else 0)
 \<and> invalidations ''metas'' (snd (useRemoveDeployment cfg w name)) =
     (if isResolved (fst (useRemoveDeployment cfg w name)) then 1 else 0)
 \<and> isStale ''metas'' (snd (useCreateDeployment cfg w data)) =
     isResolved (fst (useCreateDeployment cfg w data))
 \<and> isStale ''metas'' (snd (useUpdateDeployment cfg w data)) =
     isResolved (fst (useUpdateDeployment cfg w data))
 \<and> isStale ''metas'' (snd (useRemoveDeployment cfg w name)) =
     isResolved (fst (useRemoveDeployment cfg w name))
 \<and> (fst (useCreateDeployment cfg w data) = Inr r \<longrightarrow> resp_code r = 0)
 \<and> (fst (useUpdateDeployment cfg w data) = Inr r \<longrightarrow> resp_code r = 0)
 \<and> (fst (useRemoveDeployment cfg w name) = Inr r \<longrightarrow> resp_code r = 0)
 \<and> (isResolved (fst (useCreateDeployment cfg w data)) \<longleftrightarrow>
      (\<exists>d' creator' key' client' m' r'.
         data = Some d' \<and> signingReady cfg w creator' key' client' \<and>
         fst (createDeploymentMsg w d' creator') = Inr m' \<and>
         signAndBroadcast w client' creator' [m'] fixedFee (Some (data_memo d')) = Inr r' \<and>
         resp_code r' = 0))
 \<and> (isResolved (fst (useUpdateDeployment cfg w data)) \<longleftrightarrow>
      (\<exists>d' creator' key' client' m' r'.
         data = Some d' \<and> signingReady cfg w creator' key' client' \<and>
         fst (updateDeploymentMsg w d' creator') = Inr m' \<and>
         signAndBroadcast w client' creator' [m'] fixedFee (Some (data_memo d')) = Inr r' \<and>
         resp_code r' = 0))
 \<and> (isResolved (fst (useRemoveDeployment cfg w name)) \<longleftrightarrow>
      (\<exists>creator' key' client' r'.
         signingReady cfg w creator' key' client' \<and>
         signAndBroadcast w client' creator'
           [RemoveDeployment \<lparr>rv_creator = creator', rv_name = name\<rparr>] fixedFee None =
             Inr r' \<and>
         resp_code r' = 0))
 \<and> (store_getAddress w = Inr a \<longrightarrow> a = None \<or> a = Some [] \<longrightarrow>
      invalidations ''metas'' (snd (useCreateDeployment cfg w (Some d))) = 0 \<and>
      invalidations ''metas'' (snd (useUpdateDeployment cfg w (Some d))) = 0 \<and>
      invalidations ''metas'' (snd (useRemoveDeployment cfg w name)) = 0)
 \<and> (store_getAddress w = Inr (Some creator) \<longrightarrow> creator \<noteq> [] \<longrightarrow>
      store_getPrivateKey w = Inr key \<longrightarrow>
      fst (createGhostcloudRpcClient cfg w (Buffer_from_hex w key)) = Inl e \<longrightarrow>
      fst (useCreateDeployment cfg w (Some d)) = Inl e \<and>
      fst (useUpdateDeployment cfg w (Some d)) = Inl e \<and>
      fst (useRemoveDeployment cfg w name) = Inl e \<and>
      invalidations ''metas'' (snd (useCreateDeployment cfg w (Some d))) = 0 \<and>
      invalidations ''metas'' (snd (useUpdateDeployment cfg w (Some d))) = 0 \<and>
      invalidations ''metas'' (snd (useRemoveDeployment cfg w name)) = 0)
 \<and> (signingReady cfg w creator key client \<longrightarrow>
      fst (createDeploymentMsg w d creator) = Inr mc \<longrightarrow>
      signAndBroadcast w client creator [mc] fixedFee (Some (data_memo d)) = Inl e \<longrightarrow>
      fst (useCreateDeployment cfg w (Some d)) = Inl e \<and>
      invalidations ''metas'' (snd (useCreateDeployment cfg w (Some d))) = 0)
 \<and> (signingReady cfg w creator key client \<longrightarrow>
      fst (updateDeploymentMsg w d creator) = Inr mu \<longrightarrow>
      signAndBroadcast w client creator [mu] fixedFee (Some (data_memo d)) = Inl e \<longrightarrow>
      fst (useUpdateDeployment cfg w (Some d)) = Inl e \<and>
      invalidations ''metas'' (snd (useUpdateDeployment cfg w (Some d))) = 0)
 \<and> (signingReady cfg w creator key client \<longrightarrow>
      signAndBroadcast w client creator
        [RemoveDeployment \<lparr>rv_creator = creator, rv_name = name\<rparr>] fixedFee None =
          Inl e \<longrightarrow>
      fst (useRemoveDeployment cfg w name) = Inl e \<and>
      invalidations ''metas'' (snd (useRemoveDeployment cfg w name)) = 0)"
  by (intro conjI; rule write_stage_facts)

theorem metas_invalidated_iff_write_succeeded_witness:
  "invalidations ''metas''
     (snd (useCreateDeployment exampleConfig (exampleWorld (Some ''gc1abc'') 0)
             (Some (exampleData False)))) = 1
 \<and> invalidations ''metas''
     (snd (useRemoveDeployment exampleConfig (exampleWorld (Some ''gc1abc'') 5) ''site1'')) = 0
 \<and> \<not> isStale ''metas''
     (snd (useUpdateDeployment exampleConfig (exampleWorld None 0) (Some (exampleData True))))
 \<and> fst (useCreateDeployment exampleConfig unreachableWorld (Some (exampleData True))) =
     Inl (Error ''connection refused'')
 \<and> invalidations ''metas''
     (snd (useCreateDeployment exampleConfig unreachableWorld (Some (exampleData True)))) = 0
 \<and> invalidations ''metas'' (snd (useRemoveDeployment exampleConfig unreachableWorld ''site1'')) = 0
 \<and> fst (useRemoveDeployment exampleConfig droppedWorld ''site1'') = Inl (Error ''timeout'')
 \<and> invalidations ''metas'' (snd (useRemoveDeployment exampleConfig droppedWorld ''site1'')) = 0"
proof -
  have created: "invalidations ''metas''
     (snd (useCreateDeployment exampleConfig (exampleWorld (Some ''gc1abc'') 0)
             (Some (exampleData False)))) = 1"
    using metas_invalidated_iff_write_succeeded
      [THEN conjunct1, rule_format, OF exampleWorld_ready example_createMsg
        example_broadcast, of 0]
    by (simp add: exampleResponse_def)
  have refused: "invalidations ''metas''
     (snd (useRemoveDeployment exampleConfig (exampleWorld (Some ''gc1abc'') 5) ''site1'')) = 0"
    using metas_invalidated_iff_write_succeeded
      [THEN conjunct2, THEN conjunct2, THEN conjunct1, rule_format,
        OF exampleWorld_ready example_broadcast, of 5 "''site1''"]
    by (simp add: exampleResponse_def)
  have rejected: "fst (useUpdateDeployment exampleConfig (exampleWorld None 0)
      (Some (exampleData True))) = Inl (Error ''Creator address is empty.'')"
    by (simp add: hook_fst update_def exampleWorld_def async_simps)
  have fresh: "\<not> isStale ''metas''
     (snd (useUpdateDeployment exampleConfig (exampleWorld None 0) (Some (exampleData True))))"
    using metas_invalidated_iff_write_succeeded
      [THEN conjunct2, THEN conjunct2, THEN conjunct2, THEN conjunct2, THEN conjunct2, THEN conjunct2, THEN conjunct2, THEN conjunct1,
        of exampleConfig "exampleWorld None 0" "Some (exampleData True)"]
    by (simp add: rejected isResolved_def)
  have unreachable:
    "fst (useCreateDeployment exampleConfig unreachableWorld (Some (exampleData True))) =
       Inl (Error ''connection refused'') \<and>
     invalidations ''metas''
       (snd (useCreateDeployment exampleConfig unreachableWorld (Some (exampleData True)))) = 0 \<and>
     invalidations ''metas''
       (snd (useRemoveDeployment exampleConfig unreachableWorld ''site1'')) = 0"
    using metas_invalidated_iff_write_succeeded
      [THEN conjunct2, THEN conjunct2, THEN conjunct2, THEN conjunct2, THEN conjunct2, THEN conjunct2, THEN conjunct2, THEN conjunct2, THEN conjunct2, THEN conjunct2, THEN conjunct2, THEN conjunct2, THEN conjunct2, THEN conjunct2, THEN conjunct2, THEN conjunct2, THEN conjunct1, rule_format,
        OF unreachable_address unreachable_nonempty unreachable_key unreachable_client,
        of "exampleData True" "''site1''"]
    by simp
  have dropped:
    "fst (useRemoveDeployment exampleConfig droppedWorld ''site1'') = Inl (Error ''timeout'') \<and>
     invalidations ''metas'' (snd (useRemoveDeployment exampleConfig droppedWorld ''site1'')) = 0"
    using metas_invalidated_iff_write_succeeded
      [THEN conjunct2, THEN conjunct2, THEN conjunct2, THEN conjunct2, THEN conjunct2, THEN conjunct2, THEN conjunct2, THEN conjunct2, THEN conjunct2, THEN conjunct2, THEN conjunct2, THEN conjunct2, THEN conjunct2, THEN conjunct2, THEN conjunct2, THEN conjunct2, THEN conjunct2, THEN conjunct2, THEN conjunct2, rule_format, OF dropped_ready dropped_broadcast, of "''site1''"]
    by simp
  show ?thesis
    using created refused fresh unreachable dropped by simp
qed

text \<open>
  C5. A create message built from a request and a creator carries, in its meta, the
  request's name, description and domain and that creator. The builder does return a
  message whenever the request has no file or its file could be read.
\<close>

theorem create_message_meta_roundtrip:
  "(data_file d = None \<or> (\<exists>f buf. data_file d = Some f \<and> fileToArrayBuffer w f = Inr buf) \<longrightarrow>
      (\<exists>v. fst (createDeploymentMsg w d creator) = Inr (CreateDeployment v)))
 \<and> (fst (createDeploymentMsg w d creator) = Inr m \<longrightarrow>
      (\<exists>v. m = CreateDeployment v \<and> meta_name (dv_meta v) = data_name d \<and>
           meta_description (dv_meta v) = data_description d \<and>
           meta_domain (dv_meta v) = data_domain d \<and> meta_creator (dv_meta v) = creator))"
  by (auto simp: createDeploymentMsg_def async_simps split: sum.splits option.splits)

theorem create_message_meta_roundtrip_witness:
  "fst (createDeploymentMsg (exampleWorld (Some ''gc1abc'') 0) (exampleData True) ''gc1abc'') =
     Inr (CreateDeployment
       \<lparr>dv_meta = exampleMeta,
        dv_payload = Some \<lparr>payload_archive =
          Some \<lparr>archive_type = Zip, archive_content = [80, 75, 3, 4]\<rparr>\<rparr>\<rparr>)
 \<and> meta_name exampleMeta = data_name (exampleData True)
 \<and> meta_description exampleMeta = data_description (exampleData True)
 \<and> meta_domain exampleMeta = data_domain (exampleData True)
 \<and> meta_creator exampleMeta = ''gc1abc''"
  using create_message_meta_roundtrip
    [THEN conjunct2, rule_format, OF example_createMsg_file]
    example_createMsg_file [of "Some ''gc1abc''" 0]
  by auto

text \<open>
  C6. For the create builder and, independently, for the update builder: a message the
  builder returns has a payload exactly when the request has a file; the payload then
  is an archive of type ZIP whose content is the bytes read from the file; without a
  file the payload field is absent. The builder does return a message when the request
  has no file, and when it has one that could be read; when the file could not be read
  it returns no message at all.
\<close>

theorem payload_iff_file:
  "(fst (createDeploymentMsg w d cc) = Inr mc \<longrightarrow>
      (\<exists>v. mc = CreateDeployment v \<and>
         (dv_payload v \<noteq> None \<longleftrightarrow> data_file d \<noteq> None) \<and>
         (\<forall>f. data_file d = Some f \<longrightarrow>
            (\<exists>buf. fileToArrayBuffer w f = Inr buf \<and>
               dv_payload v =
                 Some \<lparr>payload_archive = Some \<lparr>archive_type = Zip, archive_content = buf\<rparr>\<rparr>)) \<and>
         (data_file d = None \<longrightarrow> dv_payload v = None)))
 \<and> (data_file d = None \<longrightarrow>
      (\<exists>v. fst (createDeploymentMsg w d cc) = Inr (CreateDeployment v) \<and> dv_payload v = None))
 \<and> (data_file d = Some g \<longrightarrow> fileToArrayBuffer w g = Inr bytes \<longrightarrow>
      (\<exists>v. fst (createDeploymentMsg w d cc) = Inr (CreateDeployment v) \<and>
         dv_payload v =
           Some \<lparr>payload_archive =
             Some \<lparr>archive_type = Zip, archive_content = bytes\<rparr>\<rparr>))
 \<and> (data_file d = Some g \<longrightarrow> fileToArrayBuffer w g = Inl e \<longrightarrow>
      fst (createDeploymentMsg w d cc) = Inl e)
 \<and> (fst (updateDeploymentMsg w d cu) = Inr mu \<longrightarrow>
      (\<exists>v. mu = UpdateDeployment v \<and>
         (dv_payload v \<noteq> None \<longleftrightarrow> data_file d \<noteq> None) \<and>
         (\<forall>f. data_file d = Some f \<longrightarrow>
            (\<exists>buf. fileToArrayBuffer w f = Inr buf \<and>
               dv_payload v =
                 Some \<lparr>payload_archive = Some \<lparr>archive_type = Zip, archive_content = buf\<rparr>\<rparr>)) \<and>
         (data_file d = None \<longrightarrow> dv_payload v = None)))
 \<and> (data_file d = None \<longrightarrow>
      (\<exists>v. fst (updateDeploymentMsg w d cu) = Inr (UpdateDeployment v) \<and> dv_payload v = None))
 \<and> (data_file d = Some g \<longrightarrow> fileToArrayBuffer w g = Inr bytes \<longrightarrow>
      (\<exists>v. fst (updateDeploymentMsg w d cu) = Inr (UpdateDeployment v) \<and>
         dv_payload v =
           Some \<lparr>payload_archive =
             Some \<lparr>archive_type = Zip, archive_content = bytes\<rparr>\<rparr>))
 \<and> (data_file d = Some g \<longrightarrow> fileToArrayBuffer w g = Inl e \<longrightarrow>
      fst (updateDeploymentMsg w d cu) = Inl e)"
  by (auto simp: createDeploymentMsg_def updateDeploymentMsg_def async_simps
      split: sum.splits option.splits)

theorem payload_iff_file_witness:
  "data_file (exampleData True) = Some ()
 \<and> fileToArrayBuffer (exampleWorld (Some ''gc1abc'') 0) () = Inr [80, 75, 3, 4]
 \<and> fst (createDeploymentMsg (exampleWorld (Some ''gc1abc'') 0) (exampleData True) ''gc1abc'') =
     Inr (CreateDeployment
       \<lparr>dv_meta = exampleMeta,
        dv_payload = Some \<lparr>payload_archive =
          Some \<lparr>archive_type = Zip, archive_content = [80, 75, 3, 4]\<rparr>\<rparr>\<rparr>)
 \<and> fst (updateDeploymentMsg (exampleWorld (Some ''gc1abc'') 0) (exampleData True) ''gc1abc'') =
     Inr (UpdateDeployment
       \<lparr>dv_meta = exampleMeta,
        dv_payload = Some \<lparr>payload_archive =
          Some \<lparr>archive_type = Zip, archive_content = [80, 75, 3, 4]\<rparr>\<rparr>\<rparr>)
 \<and> data_file (exampleData False) = None
 \<and> fst (createDeploymentMsg (exampleWorld (Some ''gc1abc'') 0) (exampleData False) ''gc1abc'') =
     Inr (CreateDeployment \<lparr>dv_meta = exampleMeta, dv_payload = None\<rparr>)
 \<and> fst (updateDeploymentMsg (exampleWorld (Some ''gc1abc'') 0) (exampleData False) ''gc1abc'') =
     Inr (UpdateDeployment \<lparr>dv_meta = exampleMeta, dv_payload = None\<rparr>)"
proof -
  let ?w = "exampleWorld (Some ''gc1abc'') 0"
  have has_file: "data_file (exampleData True) = Some ()"
    and no_file: "data_file (exampleData False) = None"
    and read_ok: "fileToArrayBuffer ?w () = Inr [80, 75, 3, 4]"
    by (simp_all add: exampleData_def exampleWorld_def)
  have c_file: "\<exists>v. fst (createDeploymentMsg ?w (exampleData True) ''gc1abc'') =
        Inr (CreateDeployment v) \<and>
      dv_payload v = Some \<lparr>payload_archive =
        Some \<lparr>archive_type = Zip, archive_content = [80, 75, 3, 4]\<rparr>\<rparr>"
    by (rule payload_iff_file
        [THEN conjunct2, THEN conjunct2, THEN conjunct1, rule_format, OF has_file read_ok])
  have u_file: "\<exists>v. fst (updateDeploymentMsg ?w (exampleData True) ''gc1abc'') =
        Inr (UpdateDeployment v) \<and>
      dv_payload v = Some \<lparr>payload_archive =
        Some \<lparr>archive_type = Zip, archive_content = [80, 75, 3, 4]\<rparr>\<rparr>"
    by (rule payload_iff_file
        [THEN conjunct2, THEN conjunct2, THEN conjunct2, THEN conjunct2, THEN conjunct2,
          THEN conjunct2, THEN conjunct1, rule_format, OF has_file read_ok])
  have c_nofile: "\<exists>v. fst (createDeploymentMsg ?w (exampleData False) ''gc1abc'') =
        Inr (CreateDeployment v) \<and> dv_payload v = None"
    by (rule payload_iff_file [THEN conjunct2, THEN conjunct1, rule_format, OF no_file])
  have u_nofile: "\<exists>v. fst (updateDeploymentMsg ?w (exampleData False) ''gc1abc'') =
        Inr (UpdateDeployment v) \<and> dv_payload v = None"
    by (rule payload_iff_file
        [THEN conjunct2, THEN conjunct2, THEN conjunct2, THEN conjunct2, THEN conjunct2,
          THEN conjunct1, rule_format, OF no_file])
  show ?thesis
    using has_file no_file read_ok c_file u_file c_nofile u_nofile
    by (simp add: example_createMsg_file example_updateMsg example_createMsg
        example_updateMsg_nofile)
qed

text \<open>
  C7. \<open>createUrl\<close> returns the scheme, \<^verbatim>\<open>://\<close>, the name, a hyphen, the address, a
  dot and the domain, in this order; with the scheme \<^verbatim>\<open>https\<close> and the domain
  \<^verbatim>\<open>example.com\<close> the name \<^verbatim>\<open>myapp\<close> and the address \<^verbatim>\<open>cosmos1abc...\<close> give
  \<^verbatim>\<open>https://myapp-cosmos1abc....example.com\<close>.
\<close>

theorem createUrl_format:
  "createUrl cfg name address =
     GHOSTCLOUD_URL_SCHEME cfg @ ''://'' @ name @ ''-'' @ address @ ''.'' @
     GHOSTCLOUD_URL_DOMAIN cfg
 \<and> createUrl \<lparr>GHOSTCLOUD_ADDRESS_PREFIX = prefix, GHOSTCLOUD_RPC_TARGET = rpc,
              GHOSTCLOUD_URL_SCHEME = ''https'', GHOSTCLOUD_URL_DOMAIN = ''example.com''\<rparr>
     ''myapp'' ''cosmos1abc...'' = ''https://myapp-cosmos1abc....example.com''"
  by (simp add: createUrl_def)

text \<open>
  C8. With a non-empty address in the store, every query \<open>list\<close> issues carries
  exactly one filter: field CREATOR, operator EQUAL, value that address. When the query
  client could be created, \<open>list\<close> issues exactly one such query and resolves with
  what the endpoint answers to it.
\<close>

theorem list_query_has_creator_filter:
  assumes "store_getAddress w = Inr (Some address)" and "address \<noteq> []"
  shows "(\<forall>req. QueryMetas req \<in> set (snd (list cfg w)) \<longrightarrow>
            req_filters req = [\<lparr>filter_field = CREATOR, filter_operator = EQUAL,
                                filter_value = address\<rparr>])
       \<and> (createRPCQueryClient w (GHOSTCLOUD_RPC_TARGET cfg) = Inr client \<longrightarrow>
            snd (list cfg w) =
              [StoreGetAddress, CreateRPCQueryClient (GHOSTCLOUD_RPC_TARGET cfg),
               QueryMetas \<lparr>req_filters = [\<lparr>filter_field = CREATOR, filter_operator = EQUAL,
                                            filter_value = address\<rparr>]\<rparr>] \<and>
            fst (list cfg w) =
              (case client_metas w client
                      \<lparr>req_filters = [\<lparr>filter_field = CREATOR, filter_operator = EQUAL,
                                        filter_value = address\<rparr>]\<rparr> of
                 Inl e \<Rightarrow> Inl e | Inr res \<Rightarrow> Inr (Some res)))"
  using assms
  by (auto simp: list_def async_simps split: sum.splits)

theorem list_query_has_creator_filter_witness:
  "list exampleConfig (exampleWorld (Some ''gc1abc'') 0) =
     (Inr (Some \<lparr>resp_meta = [exampleMeta]\<rparr>),
      [StoreGetAddress, CreateRPCQueryClient ''http://localhost:26657'',
       QueryMetas \<lparr>req_filters = [exampleFilter]\<rparr>])"
proof -
  have addr: "store_getAddress (exampleWorld (Some ''gc1abc'') 0) = Inr (Some ''gc1abc'')"
    and ne: "''gc1abc'' \<noteq> []"
    and cl: "createRPCQueryClient (exampleWorld (Some ''gc1abc'') 0)
               (GHOSTCLOUD_RPC_TARGET exampleConfig) = Inr ()"
    by (simp_all add: exampleWorld_def)
  show ?thesis
    using list_query_has_creator_filter
      [OF addr ne, THEN conjunct2, rule_format, OF cl]
    by (simp add: prod_eq_iff exampleWorld_def exampleConfig_def exampleFilter_def)
qed

text \<open>
  C4. For a positive page size, every fetched result set and every requested page
  number, the page is delivered and never an error; a page number below 1 delivers
  what page 1 delivers, whose items are the first \<open>pageSize\<close> items, and a page
  number above the page count delivers what the last page delivers, whose items are
  those after the first \<open>pageCount - 1\<close> full pages.
\<close>

theorem listDeployments_clamps:
  assumes "0 < pageSize"
  shows "(p < 1 \<longrightarrow> listDeployments pageSize items p = listDeployments pageSize items 1)
       \<and> (pageCount pageSize items < p \<longrightarrow>
            listDeployments pageSize items p =
              listDeployments pageSize items (pageCount pageSize items))
       \<and> (\<exists>pg. listDeployments pageSize items p = Inr pg)
       \<and> (p < 1 \<longrightarrow>
            (\<exists>pg. listDeployments pageSize items p = Inr pg \<and>
                  page_items pg = take pageSize items))
       \<and> (pageCount pageSize items < p \<longrightarrow>
            (\<exists>pg. listDeployments pageSize items p = Inr pg \<and>
                  page_items pg =
                    drop ((nat (pageCount pageSize items) - 1) * pageSize) items))"
proof (intro conjI impI)
  show "listDeployments pageSize items p = listDeployments pageSize items 1" if "p < 1"
    using that by (simp add: listDeployments_def clampPage_low) (simp add: clampPage_def)
  show "listDeployments pageSize items p =
          listDeployments pageSize items (pageCount pageSize items)"
    if "pageCount pageSize items < p"
    using that by (simp add: listDeployments_def clampPage_high) (simp add: clampPage_def)
  show "\<exists>pg. listDeployments pageSize items p = Inr pg"
    by (simp add: listDeployments_def)
  show "\<exists>pg. listDeployments pageSize items p = Inr pg \<and> page_items pg = take pageSize items"
    if "p < 1"
    using that by (simp add: listDeployments_def clampPage_low pageSlice_def)
  show "\<exists>pg. listDeployments pageSize items p = Inr pg \<and>
          page_items pg = drop ((nat (pageCount pageSize items) - 1) * pageSize) items"
    if "pageCount pageSize items < p"
    using that last_slice [OF assms, of items]
    by (simp add: listDeployments_def clampPage_high)
qed

theorem listDeployments_clamps_witness:
  "(0::nat) < 2 \<and> (- 3 :: int) < 1 \<and> pageCount 2 exampleItems < 7
 \<and> listDeployments 2 exampleItems (- 3) = listDeployments 2 exampleItems 1
 \<and> listDeployments 2 exampleItems 7 = listDeployments 2 exampleItems 3
 \<and> listDeployments 2 exampleItems 7 =
     Inr \<lparr>page_items = drop 4 exampleItems, currentPageNumber = 3, totalPageCount = 3\<rparr>"
proof -
  have size: "(0::nat) < 2" by simp
  have low: "(- 3 :: int) < 1" by simp
  have high: "pageCount 2 exampleItems < 7" by (simp add: example_pageCount)
  have last: "listDeployments 2 exampleItems 7 =
     Inr \<lparr>page_items = drop 4 exampleItems, currentPageNumber = 3, totalPageCount = 3\<rparr>"
    by (simp add: listDeployments_def example_pageCount clampPage_def pageSlice_def)
      (simp add: exampleItems_def)
  show ?thesis
    using size low high last
      listDeployments_clamps [OF size, of "- 3" exampleItems, THEN conjunct1, rule_format, OF low]
      listDeployments_clamps [OF size, of 7 exampleItems, THEN conjunct2, THEN conjunct1,
        rule_format, OF high]
    by (simp add: example_pageCount)
qed

end
